theory Spec2Isabelle
  imports Main
begin

section \<open>Data model of \<^verbatim>\<open>src/main.ts\<close>\<close>

text \<open>
  Piece colours are the string literals \<^verbatim>\<open>'white' | 'black'\<close>; the global
  \<^verbatim>\<open>playerColor\<close> has the wider type \<^verbatim>\<open>'white' | 'black' | 'spectator'\<close>.
  The comparison \<^verbatim>\<open>piece.color !== playerColor\<close> of the source is the comparison
  of \<open>Player (color p)\<close> with the player colour here.
\<close>

datatype color = White | Black

datatype player_color = Player color | Spectator

text \<open>The seven subclasses of the abstract class \<^verbatim>\<open>Piece\<close>.\<close>

datatype piece_type = Pawn | Rook | Knight | Bishop | Queen | King | Mann

record piece =
  ptype :: piece_type
  color :: color
  row :: int
  col :: int
  hasMoved :: bool

text \<open>A square \<^verbatim>\<open>{ row, col }\<close> is the pair \<open>(row, col)\<close>.\<close>

type_synonym position = "int \<times> int"

text \<open>
  \<^verbatim>\<open>ChessBoard.pieces\<close>: an array of 8 rows, each an array of 10 cells holding a piece
  or \<^verbatim>\<open>null\<close>.
\<close>

type_synonym board = "piece option list list"

definition emptyBoard :: board where
  "emptyBoard = replicate 8 (replicate 10 None)"

definition isOpponent :: "piece \<Rightarrow> piece \<Rightarrow> bool" where
  "isOpponent p other = (color p \<noteq> color other)"

section \<open>ChessBoard\<close>

definition isValidPosition :: "position \<Rightarrow> bool" where
  "isValidPosition pos = (fst pos \<ge> 0 \<and> fst pos < 8 \<and> snd pos \<ge> 0 \<and> snd pos < 10)"

definition getPiece :: "board \<Rightarrow> int \<Rightarrow> int \<Rightarrow> piece option" where
  "getPiece b r c = (if \<not> isValidPosition (r, c) then None else b ! nat r ! nat c)"

text \<open>
  \<^verbatim>\<open>setPiece\<close> writes the cell and stamps the coordinates into the piece it places;
  outside the board it does nothing.
\<close>

definition setPiece :: "board \<Rightarrow> int \<Rightarrow> int \<Rightarrow> piece option \<Rightarrow> board" where
  "setPiece b r c p =
     (if isValidPosition (r, c)
      then b[nat r := (b ! nat r)[nat c := map_option (\<lambda>q. q\<lparr>row := r, col := c\<rparr>) p]]
      else b)"

text \<open>A piece entry of the server state; \<^verbatim>\<open>type\<close> is an arbitrary string.\<close>

record serverPiece =
  sp_type :: string
  sp_color :: color
  sp_row :: int
  sp_col :: int
  sp_hasMoved :: bool

text \<open>The constructors set \<^verbatim>\<open>hasMoved = false\<close>.\<close>

definition newPiece :: "piece_type \<Rightarrow> color \<Rightarrow> int \<Rightarrow> int \<Rightarrow> piece" where
  "newPiece t c r cl = \<lparr>ptype = t, color = c, row = r, col = cl, hasMoved = False\<rparr>"

definition createPieceFromType :: "string \<Rightarrow> color \<Rightarrow> int \<Rightarrow> int \<Rightarrow> piece option" where
  "createPieceFromType t c r cl =
     (if t = ''pawn'' then Some (newPiece Pawn c r cl)
      else if t = ''rook'' then Some (newPiece Rook c r cl)
      else if t = ''knight'' then Some (newPiece Knight c r cl)
      else if t = ''bishop'' then Some (newPiece Bishop c r cl)
      else if t = ''queen'' then Some (newPiece Queen c r cl)
      else if t = ''king'' then Some (newPiece King c r cl)
      else if t = ''mann'' then Some (newPiece Mann c r cl)
      else None)"

text \<open>One iteration of the loop of \<^verbatim>\<open>updateFromServerState\<close>.\<close>

definition placeServerPiece :: "board \<Rightarrow> serverPiece \<Rightarrow> board" where
  "placeServerPiece b sp =
     (case createPieceFromType (sp_type sp) (sp_color sp) (sp_row sp) (sp_col sp) of
        None \<Rightarrow> b
      | Some p \<Rightarrow> setPiece b (sp_row sp) (sp_col sp) (Some (p\<lparr>hasMoved := sp_hasMoved sp\<rparr>)))"

fun placeServerPieces :: "board \<Rightarrow> serverPiece list \<Rightarrow> board" where
  "placeServerPieces b [] = b"
| "placeServerPieces b (sp # sps) = placeServerPieces (placeServerPiece b sp) sps"

text \<open>The old contents are discarded: the loop starts from a fresh empty grid.\<close>

definition updateFromServerState :: "board \<Rightarrow> serverPiece list \<Rightarrow> board" where
  "updateFromServerState b serverPieces = placeServerPieces emptyBoard serverPieces"

text \<open>
  \<^verbatim>\<open>getAllPieces\<close> reads \<^verbatim>\<open>this.pieces[row][col]\<close> for row 0..7 and col 0..9,
  row by row.
\<close>

definition getAllPieces :: "board \<Rightarrow> piece list" where
  "getAllPieces b =
     concat (map (\<lambda>r. concat (map (\<lambda>c. case b ! r ! c of None \<Rightarrow> [] | Some p \<Rightarrow> [p]) [0..<10])) [0..<8])"

section \<open>Move generation\<close>

definition Pawn_getValidMoves :: "piece \<Rightarrow> board \<Rightarrow> position list" where
  "Pawn_getValidMoves p b =
     (let direction = (if color p = White then - 1 else 1);
          startingRow = (if color p = White then 6 else 1);
          oneForward = (row p + direction, col p);
          twoForward = (row p + 2 * direction, col p);
          forward =
            (if isValidPosition oneForward \<and> getPiece b (fst oneForward) (snd oneForward) = None
             then oneForward #
                  (if row p = startingRow
                   then (if isValidPosition twoForward
                            \<and> getPiece b (fst twoForward) (snd twoForward) = None
                         then [twoForward] else [])
                   else [])
             else []);
          captureLeft = (row p + direction, col p - 1);
          captureRight = (row p + direction, col p + 1)
      in forward @
         filter (\<lambda>capturePos. isValidPosition capturePos \<and>
                   (case getPiece b (fst capturePos) (snd capturePos) of
                      None \<Rightarrow> False
                    | Some q \<Rightarrow> isOpponent p q))
           [captureLeft, captureRight])"

text \<open>
  The inner loop \<^verbatim>\<open>for (let i = 1; i < 10; i++)\<close> of \<^verbatim>\<open>Rook.getValidMoves\<close> and of
  \<^verbatim>\<open>Bishop.getValidMoves\<close> (the two bodies are the same text), from step \<open>i\<close> on,
  for one direction.
\<close>

function ray :: "piece \<Rightarrow> board \<Rightarrow> int \<times> int \<Rightarrow> int \<Rightarrow> position list" where
  "ray p b dir i =
     (if i < 10
      then (let newPos = (row p + fst dir * i, col p + snd dir * i)
            in if \<not> isValidPosition newPos then []
               else (case getPiece b (fst newPos) (snd newPos) of
                       None \<Rightarrow> newPos # ray p b dir (i + 1)
                     | Some q \<Rightarrow> (if isOpponent p q then [newPos] else [])))
      else [])"
  by pat_completeness auto
termination
  by (relation "measure (\<lambda>(p, b, dir, i). nat (10 - i))") auto

declare ray.simps [simp del]

definition Rook_getValidMoves :: "piece \<Rightarrow> board \<Rightarrow> position list" where
  "Rook_getValidMoves p b =
     concat (map (\<lambda>dir. ray p b dir 1) [(0, 1), (0, - 1), (1, 0), (- 1, 0)])"

definition Bishop_getValidMoves :: "piece \<Rightarrow> board \<Rightarrow> position list" where
  "Bishop_getValidMoves p b =
     concat (map (\<lambda>dir. ray p b dir 1) [(1, 1), (1, - 1), (- 1, 1), (- 1, - 1)])"

text \<open>The test that the knight, king and mann generators share.\<close>

definition freeOrOpponent :: "piece \<Rightarrow> board \<Rightarrow> position \<Rightarrow> bool" where
  "freeOrOpponent p b pos =
     (isValidPosition pos \<and>
      (case getPiece b (fst pos) (snd pos) of None \<Rightarrow> True | Some q \<Rightarrow> isOpponent p q))"

definition Knight_getValidMoves :: "piece \<Rightarrow> board \<Rightarrow> position list" where
  "Knight_getValidMoves p b =
     filter (freeOrOpponent p b)
       [(row p + 2, col p + 1), (row p + 2, col p - 1),
        (row p - 2, col p + 1), (row p - 2, col p - 1),
        (row p + 1, col p + 2), (row p + 1, col p - 2),
        (row p - 1, col p + 2), (row p - 1, col p - 2)]"

text \<open>The queen builds a fresh rook and a fresh bishop on its own square.\<close>

definition Queen_getValidMoves :: "piece \<Rightarrow> board \<Rightarrow> position list" where
  "Queen_getValidMoves p b =
     (let rook = newPiece Rook (color p) (row p) (col p);
          bishop = newPiece Bishop (color p) (row p) (col p)
      in Rook_getValidMoves rook b @ Bishop_getValidMoves bishop b)"

definition King_getValidMoves :: "piece \<Rightarrow> board \<Rightarrow> position list" where
  "King_getValidMoves p b =
     filter (freeOrOpponent p b)
       (map (\<lambda>dir. (row p + fst dir, col p + snd dir))
          [(- 1, - 1), (- 1, 0), (- 1, 1), (0, - 1), (0, 1), (1, - 1), (1, 0), (1, 1)])"

definition Mann_getValidMoves :: "piece \<Rightarrow> board \<Rightarrow> position list" where
  "Mann_getValidMoves p b =
     filter (freeOrOpponent p b)
       (map (\<lambda>dir. (row p + fst dir, col p + snd dir))
          [(- 1, - 1), (- 1, 0), (- 1, 1), (0, - 1), (0, 1), (1, - 1), (1, 0), (1, 1)])"

text \<open>Dynamic dispatch of the abstract method \<^verbatim>\<open>Piece.getValidMoves\<close>.\<close>

definition getValidMoves :: "piece \<Rightarrow> board \<Rightarrow> position list" where
  "getValidMoves p b =
     (case ptype p of
        Pawn \<Rightarrow> Pawn_getValidMoves p b
      | Rook \<Rightarrow> Rook_getValidMoves p b
      | Knight \<Rightarrow> Knight_getValidMoves p b
      | Bishop \<Rightarrow> Bishop_getValidMoves p b
      | Queen \<Rightarrow> Queen_getValidMoves p b
      | King \<Rightarrow> King_getValidMoves p b
      | Mann \<Rightarrow> Mann_getValidMoves p b)"

section \<open>NetworkedChessGame and the module's global variables\<close>

text \<open>
  The messages sent with \<^verbatim>\<open>room.send\<close>: three by the controller, and
  \<^verbatim>\<open>"restart"\<close> by the restart button.
\<close>

datatype message =
    Select int int
  | Deselect
  | Move int int int int
  | Restart

text \<open>The fields of the room state that \<^verbatim>\<open>updateFromServer\<close> reads.\<close>

record roomState =
  pieces :: "serverPiece list"
  currentTurn :: color
  rs_gameStatus :: string
  selectedPiecePlayer :: string
  selectedRow :: int
  selectedCol :: int

text \<open>
  The controller's four private fields, followed by the module's globals. The global
  \<^verbatim>\<open>room\<close> is undefined until the connection is made, and every send is guarded by
  \<^verbatim>\<open>if (room)\<close>: \<open>None\<close> is the undefined room, \<open>Some out\<close> a room to which the
  messages \<open>out\<close> have been sent so far, oldest first.
\<close>

record game =
  board :: board
  currentPlayer :: color
  selectedPiece :: "piece option"
  gameStatus :: string
  room :: "message list option"
  playerColor :: player_color
  playerSessionId :: string

text \<open>\<^verbatim>\<open>if (room) { room.send(m) }\<close>\<close>

definition roomSend :: "message \<Rightarrow> game \<Rightarrow> game" where
  "roomSend m g = (case room g of None \<Rightarrow> g | Some out \<Rightarrow> g\<lparr>room := Some (out @ [m])\<rparr>)"

definition updateFromServer :: "roomState \<Rightarrow> game \<Rightarrow> game" where
  "updateFromServer rs g =
     (let b = updateFromServerState (board g) (pieces rs)
      in g\<lparr>board := b,
           currentPlayer := currentTurn rs,
           gameStatus := rs_gameStatus rs,
           selectedPiece :=
             (if selectedPiecePlayer rs = playerSessionId g
              then getPiece b (selectedRow rs) (selectedCol rs)
              else None)\<rparr>)"

definition selectPiece :: "int \<Rightarrow> int \<Rightarrow> game \<Rightarrow> bool \<times> game" where
  "selectPiece r c g =
     (case getPiece (board g) r c of
        None \<Rightarrow> (False, g)
      | Some p \<Rightarrow>
          (if Player (color p) \<noteq> playerColor g \<or> Player (currentPlayer g) \<noteq> playerColor g
           then (False, g)
           else (True, roomSend (Select r c) g)))"

definition deselectPiece :: "game \<Rightarrow> game" where
  "deselectPiece g = roomSend Deselect g"

definition getValidMovesForSelected :: "game \<Rightarrow> position list" where
  "getValidMovesForSelected g =
     (case selectedPiece g of None \<Rightarrow> [] | Some p \<Rightarrow> getValidMoves p (board g))"

definition makeMove :: "int \<Rightarrow> int \<Rightarrow> game \<Rightarrow> bool \<times> game" where
  "makeMove toRow toCol g =
     (case selectedPiece g of
        None \<Rightarrow> (False, g)
      | Some sel \<Rightarrow>
          (if playerColor g = Spectator then (False, g)
           else (let validMoves = getValidMovesForSelected g;
                     isValidMove = list_ex (\<lambda>move. fst move = toRow \<and> snd move = toCol) validMoves
                 in if \<not> isValidMove then (False, g)
                    else (True, roomSend (Move (row sel) (col sel) toRow toCol) g))))"

definition canPlayerAct :: "game \<Rightarrow> bool" where
  "canPlayerAct g =
     (playerColor g \<noteq> Spectator \<and>
      Player (currentPlayer g) = playerColor g \<and>
      gameStatus g = ''playing'')"

text \<open>
  The ten methods of the class as one operation type, and the state each leaves behind.
  The four getters, \<^verbatim>\<open>getValidMovesForSelected\<close> and \<^verbatim>\<open>canPlayerAct\<close> assign nothing.
\<close>

datatype operation =
    OpGetBoard
  | OpGetCurrentPlayer
  | OpGetSelectedPiece
  | OpGetGameStatus
  | OpUpdateFromServer roomState
  | OpSelectPiece int int
  | OpDeselectPiece
  | OpGetValidMovesForSelected
  | OpMakeMove int int
  | OpCanPlayerAct

fun run :: "operation \<Rightarrow> game \<Rightarrow> game" where
  "run OpGetBoard g = g"
| "run OpGetCurrentPlayer g = g"
| "run OpGetSelectedPiece g = g"
| "run OpGetGameStatus g = g"
| "run (OpUpdateFromServer rs) g = updateFromServer rs g"
| "run (OpSelectPiece r c) g = snd (selectPiece r c g)"
| "run OpDeselectPiece g = deselectPiece g"
| "run OpGetValidMovesForSelected g = g"
| "run (OpMakeMove r c) g = snd (makeMove r c g)"
| "run OpCanPlayerAct g = g"

text \<open>What the presentation layer can observe of the controller.\<close>

definition observable :: "game \<Rightarrow> board \<times> color \<times> string \<times> piece option" where
  "observable g = (board g, currentPlayer g, gameStatus g, selectedPiece g)"

text \<open>
  The state of a freshly constructed controller (empty board, white to move, nothing
  selected, status \<^verbatim>\<open>'waiting'\<close>) beside given values of the three globals.
\<close>

definition newGame :: "message list option \<Rightarrow> player_color \<Rightarrow> string \<Rightarrow> game" where
  "newGame rm pc sid =
     \<lparr>board = emptyBoard, currentPlayer = White, selectedPiece = None,
      gameStatus = ''waiting'', room = rm, playerColor = pc, playerSessionId = sid\<rparr>"

section \<open>The states of a running client\<close>

text \<open>
  The module starts with \<^verbatim>\<open>room\<close> undefined, the session id empty and a freshly
  constructed controller. Its state then changes only as follows.
  \<^item> \<^verbatim>\<open>connectToRoom\<close> assigns \<^verbatim>\<open>room\<close> and then \<^verbatim>\<open>playerSessionId\<close>; nothing
    ever resets \<^verbatim>\<open>room\<close>.
  \<^item> The handlers it registers on that room run only once the room exists:
    \<^verbatim>\<open>onMessage("gameState")\<close> assigns \<^verbatim>\<open>playerColor\<close>, and \<^verbatim>\<open>onStateChange\<close> is
    the only caller of \<^verbatim>\<open>updateFromServer\<close>.
  \<^item> The click handlers call \<^verbatim>\<open>selectPiece\<close>, \<^verbatim>\<open>deselectPiece\<close> and
    \<^verbatim>\<open>makeMove\<close>; here these may be called at any time, which covers the handlers'
    own tests.
  \<^item> The restart button sends \<^verbatim>\<open>"restart"\<close> when a room exists and the role is not
    spectator.
\<close>

inductive reachable :: "game \<Rightarrow> bool" where
  start: "reachable (newGame None pc [])"
| connectToRoom:
    "reachable g \<Longrightarrow> reachable (g\<lparr>room := Some [], playerSessionId := sid\<rparr>)"
| onGameState:
    "reachable g \<Longrightarrow> room g \<noteq> None \<Longrightarrow> reachable (g\<lparr>playerColor := pc\<rparr>)"
| onStateChange:
    "reachable g \<Longrightarrow> room g \<noteq> None \<Longrightarrow> reachable (updateFromServer rs g)"
| clickSelect:
    "reachable g \<Longrightarrow> reachable (snd (selectPiece r c g))"
| clickDeselect:
    "reachable g \<Longrightarrow> reachable (deselectPiece g)"
| clickMove:
    "reachable g \<Longrightarrow> reachable (snd (makeMove r c g))"
| clickRestart:
    "reachable g \<Longrightarrow> room g \<noteq> None \<Longrightarrow> playerColor g \<noteq> Spectator \<Longrightarrow>
     reachable (roomSend Restart g)"

section \<open>Board shape\<close>

text \<open>The grid has 8 rows of 10 cells.\<close>

definition wfBoard :: "board \<Rightarrow> bool" where
  "wfBoard b = (length b = 8 \<and> list_all (\<lambda>cells. length cells = 10) b)"

section \<open>Example data\<close>

definition entry :: "string \<Rightarrow> color \<Rightarrow> int \<Rightarrow> int \<Rightarrow> serverPiece" where
  "entry t c r cl = \<lparr>sp_type = t, sp_color = c, sp_row = r, sp_col = cl, sp_hasMoved = False\<rparr>"

text \<open>
  A snapshot with the given pieces and status, white to move, in which the session
  \<open>sid\<close> has selected the square \<open>(r, c)\<close>.
\<close>

definition snapshot :: "serverPiece list \<Rightarrow> string \<Rightarrow> string \<Rightarrow> int \<Rightarrow> int \<Rightarrow> roomState" where
  "snapshot ps st sid r c =
     \<lparr>pieces = ps, currentTurn = White, rs_gameStatus = st,
      selectedPiecePlayer = sid, selectedRow = r, selectedCol = c\<rparr>"

section \<open>Board lemmas\<close>

lemma wfBoard_empty: "wfBoard emptyBoard"
  by (simp add: wfBoard_def emptyBoard_def list_all_iff)

lemma wfBoard_setPiece: "wfBoard b \<Longrightarrow> wfBoard (setPiece b r c p)"
  by (auto simp: wfBoard_def setPiece_def list_all_iff isValidPosition_def
      dest!: set_update_subset_insert[THEN subsetD])

lemma getPiece_setPiece:
  "wfBoard b \<Longrightarrow> getPiece (setPiece b r c p) r' c' =
     (if isValidPosition (r, c) \<and> r' = r \<and> c' = c
      then map_option (\<lambda>q. q\<lparr>row := r, col := c\<rparr>) p
      else getPiece b r' c')"
  by (auto simp: wfBoard_def setPiece_def getPiece_def isValidPosition_def list_all_iff nth_list_update)

lemma getPiece_empty: "getPiece emptyBoard r c = None"
proof (cases "isValidPosition (r, c)")
  case True
  then have "nat r < 8" "nat c < 10" by (auto simp: isValidPosition_def)
  then show ?thesis by (simp add: getPiece_def emptyBoard_def)
next
  case False
  then show ?thesis by (simp add: getPiece_def)
qed

lemma wfBoard_placeServerPiece: "wfBoard b \<Longrightarrow> wfBoard (placeServerPiece b sp)"
  by (simp add: placeServerPiece_def wfBoard_setPiece split: option.splits)

lemma wfBoard_placeServerPieces: "wfBoard b \<Longrightarrow> wfBoard (placeServerPieces b sps)"
  by (induction sps arbitrary: b) (simp_all add: wfBoard_placeServerPiece)

lemma placeServerPieces_append:
  "placeServerPieces b (xs @ ys) = placeServerPieces (placeServerPieces b xs) ys"
  by (induction xs arbitrary: b) simp_all

section \<open>Rays\<close>

lemma ray_valid: "pos \<in> set (ray p b dir i) \<Longrightarrow> isValidPosition pos"
proof (induction p b dir i rule: ray.induct)
  case (1 p b dir i)
  from "1.prems" have i: "i < 10"
    by (subst (asm) ray.simps) (simp split: if_splits)
  let ?np = "(row p + fst dir * i, col p + snd dir * i)"
  from "1.prems" i have v: "isValidPosition ?np"
    by (subst (asm) ray.simps) (simp add: Let_def split: if_splits)
  show ?case
  proof (cases "getPiece b (fst ?np) (snd ?np)")
    case None
    with "1.prems" i v have "pos = ?np \<or> pos \<in> set (ray p b dir (i + 1))"
      by (subst (asm) ray.simps) (simp add: Let_def)
    with v "1.IH" i None show ?thesis by auto
  next
    case (Some q)
    with "1.prems" i v have "pos = ?np"
      by (subst (asm) ray.simps) (simp add: Let_def split: if_splits)
    with v show ?thesis by simp
  qed
qed

lemma ray_same_square:
  "color p = color p' \<Longrightarrow> row p = row p' \<Longrightarrow> col p = col p' \<Longrightarrow> ray p b dir i = ray p' b dir i"
proof (induction p b dir i rule: ray.induct)
  case (1 p b dir i)
  show ?case
    using 1
    by (subst ray.simps, subst (2) ray.simps)
       (auto simp: Let_def isOpponent_def split: option.splits)
qed

lemma Rook_same_square:
  "color p = color p' \<Longrightarrow> row p = row p' \<Longrightarrow> col p = col p' \<Longrightarrow>
   Rook_getValidMoves p b = Rook_getValidMoves p' b"
  by (simp add: Rook_getValidMoves_def ray_same_square[of p p'])

lemma Bishop_same_square:
  "color p = color p' \<Longrightarrow> row p = row p' \<Longrightarrow> col p = col p' \<Longrightarrow>
   Bishop_getValidMoves p b = Bishop_getValidMoves p' b"
  by (simp add: Bishop_getValidMoves_def ray_same_square[of p p'])

lemma Pawn_valid: "pos \<in> set (Pawn_getValidMoves p b) \<Longrightarrow> isValidPosition pos"
  by (auto simp: Pawn_getValidMoves_def Let_def split: if_splits)

lemma Rook_valid: "pos \<in> set (Rook_getValidMoves p b) \<Longrightarrow> isValidPosition pos"
  by (auto simp: Rook_getValidMoves_def dest: ray_valid)

lemma Bishop_valid: "pos \<in> set (Bishop_getValidMoves p b) \<Longrightarrow> isValidPosition pos"
  by (auto simp: Bishop_getValidMoves_def dest: ray_valid)

lemma freeOrOpponent_valid:
  "pos \<in> set (filter (freeOrOpponent p b) xs) \<Longrightarrow> isValidPosition pos"
  by (simp add: freeOrOpponent_def)

lemma Knight_valid: "pos \<in> set (Knight_getValidMoves p b) \<Longrightarrow> isValidPosition pos"
  unfolding Knight_getValidMoves_def by (rule freeOrOpponent_valid)

lemma King_valid: "pos \<in> set (King_getValidMoves p b) \<Longrightarrow> isValidPosition pos"
  unfolding King_getValidMoves_def by (rule freeOrOpponent_valid)

lemma Mann_valid: "pos \<in> set (Mann_getValidMoves p b) \<Longrightarrow> isValidPosition pos"
  unfolding Mann_getValidMoves_def by (rule freeOrOpponent_valid)

lemma Queen_valid: "pos \<in> set (Queen_getValidMoves p b) \<Longrightarrow> isValidPosition pos"
  by (auto simp: Queen_getValidMoves_def Let_def dest: Rook_valid Bishop_valid)

section \<open>Claims about move generation\<close>

text \<open>
  Claim C3. For a piece of any of the seven kinds, of any colour, at any position and on
  any board, every square returned by \<^verbatim>\<open>getValidMoves\<close> satisfies the bounds
  predicate of the board: its row is in [0,8) and its column in [0,10).
\<close>

theorem moves_on_board:
  "pos \<in> set (getValidMoves p b) \<Longrightarrow>
   isValidPosition pos \<and> 0 \<le> fst pos \<and> fst pos < 8 \<and> 0 \<le> snd pos \<and> snd pos < 10"
proof -
  assume a: "pos \<in> set (getValidMoves p b)"
  have "isValidPosition pos"
  proof (cases "ptype p")
    case Pawn with a show ?thesis by (simp add: getValidMoves_def Pawn_valid)
  next
    case Rook with a show ?thesis by (simp add: getValidMoves_def Rook_valid)
  next
    case Knight with a show ?thesis by (simp add: getValidMoves_def Knight_valid)
  next
    case Bishop with a show ?thesis by (simp add: getValidMoves_def Bishop_valid)
  next
    case Queen with a show ?thesis by (simp add: getValidMoves_def Queen_valid)
  next
    case King with a show ?thesis by (simp add: getValidMoves_def King_valid)
  next
    case Mann with a show ?thesis by (simp add: getValidMoves_def Mann_valid)
  qed
  then show ?thesis by (simp add: isValidPosition_def)
qed

theorem moves_on_board_witness:
  "(3, 9) \<in> set (getValidMoves (newPiece Rook White 3 3)
                   (updateFromServerState emptyBoard [entry ''rook'' White 3 3]))
   \<and> isValidPosition (3, 9) \<and> (0::int) \<le> 3 \<and> (3::int) < 8 \<and> (0::int) \<le> 9 \<and> (9::int) < 10"
proof -
  have h: "(3, 9) \<in> set (getValidMoves (newPiece Rook White 3 3)
                   (updateFromServerState emptyBoard [entry ''rook'' White 3 3]))"
    by code_simp
  from moves_on_board[OF h] h show ?thesis by simp
qed

text \<open>
  Claim C7. On every board, the set of squares generated for a queen is the union of
  the sets generated for a rook and for a bishop of the same colour on the same square.
\<close>

theorem queen_rook_bishop_union:
  "ptype q = Queen \<Longrightarrow> ptype r = Rook \<Longrightarrow> ptype bi = Bishop \<Longrightarrow>
   color r = color q \<Longrightarrow> row r = row q \<Longrightarrow> col r = col q \<Longrightarrow>
   color bi = color q \<Longrightarrow> row bi = row q \<Longrightarrow> col bi = col q \<Longrightarrow>
   set (getValidMoves q b) = set (getValidMoves r b) \<union> set (getValidMoves bi b)"
proof -
  assume k: "ptype q = Queen" "ptype r = Rook" "ptype bi = Bishop"
    and r: "color r = color q" "row r = row q" "col r = col q"
    and bi: "color bi = color q" "row bi = row q" "col bi = col q"
  have 1: "Rook_getValidMoves (newPiece Rook (color q) (row q) (col q)) b = Rook_getValidMoves r b"
    using r by (intro Rook_same_square) (simp_all add: newPiece_def)
  have 2: "Bishop_getValidMoves (newPiece Bishop (color q) (row q) (col q)) b = Bishop_getValidMoves bi b"
    using bi by (intro Bishop_same_square) (simp_all add: newPiece_def)
  show ?thesis
    using k 1 2 by (simp add: getValidMoves_def Queen_getValidMoves_def Let_def)
qed

theorem queen_rook_bishop_union_witness:
  "set (getValidMoves (newPiece Queen White 3 3) (updateFromServerState emptyBoard
          [entry ''queen'' White 3 3, entry ''pawn'' Black 3 7, entry ''pawn'' White 5 5]))
   = set (getValidMoves (newPiece Rook White 3 3) (updateFromServerState emptyBoard
          [entry ''queen'' White 3 3, entry ''pawn'' Black 3 7, entry ''pawn'' White 5 5]))
   \<union> set (getValidMoves (newPiece Bishop White 3 3) (updateFromServerState emptyBoard
          [entry ''queen'' White 3 3, entry ''pawn'' Black 3 7, entry ''pawn'' White 5 5]))
   \<and> (3, 7) \<in> set (getValidMoves (newPiece Queen White 3 3) (updateFromServerState emptyBoard
          [entry ''queen'' White 3 3, entry ''pawn'' Black 3 7, entry ''pawn'' White 5 5]))
   \<and> (4, 4) \<in> set (getValidMoves (newPiece Queen White 3 3) (updateFromServerState emptyBoard
          [entry ''queen'' White 3 3, entry ''pawn'' Black 3 7, entry ''pawn'' White 5 5]))"
proof -
  have m: "(3, 7) \<in> set (getValidMoves (newPiece Queen White 3 3) (updateFromServerState emptyBoard
          [entry ''queen'' White 3 3, entry ''pawn'' Black 3 7, entry ''pawn'' White 5 5]))"
    "(4, 4) \<in> set (getValidMoves (newPiece Queen White 3 3) (updateFromServerState emptyBoard
          [entry ''queen'' White 3 3, entry ''pawn'' Black 3 7, entry ''pawn'' White 5 5]))"
    by code_simp+
  have u: "set (getValidMoves (newPiece Queen White 3 3) (updateFromServerState emptyBoard
          [entry ''queen'' White 3 3, entry ''pawn'' Black 3 7, entry ''pawn'' White 5 5]))
   = set (getValidMoves (newPiece Rook White 3 3) (updateFromServerState emptyBoard
          [entry ''queen'' White 3 3, entry ''pawn'' Black 3 7, entry ''pawn'' White 5 5]))
   \<union> set (getValidMoves (newPiece Bishop White 3 3) (updateFromServerState emptyBoard
          [entry ''queen'' White 3 3, entry ''pawn'' Black 3 7, entry ''pawn'' White 5 5]))"
    by (rule queen_rook_bishop_union) (simp_all add: newPiece_def)
  from u m show ?thesis by simp
qed

section \<open>Claims about the controller\<close>

lemma updateFromServerState_fresh:
  "updateFromServerState b sps = updateFromServerState b' sps"
  by (simp add: updateFromServerState_def)

text \<open>
  Claim C5. Applying the same snapshot twice in a row with \<^verbatim>\<open>updateFromServer\<close>
  gives the state that applying it once gives; in particular the board contents, the
  current turn, the game status and the local selection are the same.
\<close>

theorem reconcile_idempotent:
  "updateFromServer rs (updateFromServer rs g) = updateFromServer rs g
   \<and> observable (updateFromServer rs (updateFromServer rs g)) = observable (updateFromServer rs g)"
proof -
  let ?g' = "updateFromServer rs g"
  have b: "updateFromServerState (board ?g') (pieces rs) = updateFromServerState (board g) (pieces rs)"
    by (rule updateFromServerState_fresh)
  have sid: "playerSessionId ?g' = playerSessionId g"
    by (simp add: updateFromServer_def Let_def)
  have "updateFromServer rs ?g' = ?g'"
    unfolding updateFromServer_def[of rs ?g'] b sid
    by (simp add: updateFromServer_def Let_def)
  then show ?thesis by simp
qed

theorem reconcile_idempotent_witness:
  "observable (updateFromServer (snapshot [entry ''pawn'' White 6 4, entry ''pawn'' Black 1 4] ''playing'' ''s1'' 6 4)
      (updateFromServer (snapshot [entry ''pawn'' White 6 4, entry ''pawn'' Black 1 4] ''playing'' ''s1'' 6 4)
         (newGame (Some []) (Player White) ''s1'')))
   = observable (updateFromServer (snapshot [entry ''pawn'' White 6 4, entry ''pawn'' Black 1 4] ''playing'' ''s1'' 6 4)
         (newGame (Some []) (Player White) ''s1''))
   \<and> selectedPiece (updateFromServer (snapshot [entry ''pawn'' White 6 4, entry ''pawn'' Black 1 4] ''playing'' ''s1'' 6 4)
         (newGame (Some []) (Player White) ''s1'')) = Some (newPiece Pawn White 6 4)"
proof -
  have "selectedPiece (updateFromServer (snapshot [entry ''pawn'' White 6 4, entry ''pawn'' Black 1 4] ''playing'' ''s1'' 6 4)
         (newGame (Some []) (Player White) ''s1'')) = Some (newPiece Pawn White 6 4)"
    by code_simp
  with reconcile_idempotent[of "snapshot [entry ''pawn'' White 6 4, entry ''pawn'' Black 1 4] ''playing'' ''s1'' 6 4"
      "newGame (Some []) (Player White) ''s1''"]
  show ?thesis by simp
qed

section \<open>Snapshot replacement\<close>

lemma placeServerPieces_skip:
  assumes "\<And>b. placeServerPiece b e = b"
  shows "placeServerPieces b0 (xs @ e # ys) = placeServerPieces b0 (xs @ ys)"
  using assms by (simp add: placeServerPieces_append)

lemma createPieceFromType_unknown:
  "t \<notin> {''pawn'', ''rook'', ''knight'', ''bishop'', ''queen'', ''king'', ''mann''} \<Longrightarrow>
   createPieceFromType t c r cl = None"
  by (simp add: createPieceFromType_def)

lemma createPieceFromType_Some:
  "createPieceFromType t c r cl = Some p \<Longrightarrow> color p = c \<and> row p = r \<and> col p = cl"
  by (auto simp: createPieceFromType_def newPiece_def split: if_splits)

lemma getPiece_placeServerPiece_other:
  "wfBoard b \<Longrightarrow> (sp_row e, sp_col e) \<noteq> (r, c) \<Longrightarrow>
   getPiece (placeServerPiece b e) r c = getPiece b r c"
  by (auto simp: placeServerPiece_def getPiece_setPiece split: option.splits)

lemma getPiece_placeServerPieces_other:
  "wfBoard b \<Longrightarrow> \<forall>e \<in> set sps. (sp_row e, sp_col e) \<noteq> (r, c) \<Longrightarrow>
   getPiece (placeServerPieces b sps) r c = getPiece b r c"
proof (induction sps arbitrary: b)
  case Nil
  show ?case by simp
next
  case (Cons e sps)
  from Cons.prems have "getPiece (placeServerPieces (placeServerPiece b e) sps) r c
      = getPiece (placeServerPiece b e) r c"
    by (intro Cons.IH) (simp_all add: wfBoard_placeServerPiece)
  with Cons.prems show ?case
    by (simp add: getPiece_placeServerPiece_other)
qed

lemma stamped_placeServerPiece:
  assumes "wfBoard b"
    and "\<And>r c p. getPiece b r c = Some p \<Longrightarrow> row p = r \<and> col p = c"
    and "getPiece (placeServerPiece b e) r c = Some p"
  shows "row p = r \<and> col p = c"
proof (cases "createPieceFromType (sp_type e) (sp_color e) (sp_row e) (sp_col e)")
  case None
  with assms(2,3) show ?thesis by (simp add: placeServerPiece_def)
next
  case (Some q)
  with assms(1,3) have "(isValidPosition (sp_row e, sp_col e) \<and> r = sp_row e \<and> c = sp_col e
       \<and> p = q\<lparr>hasMoved := sp_hasMoved e, row := sp_row e, col := sp_col e\<rparr>)
     \<or> getPiece b r c = Some p"
    by (auto simp: placeServerPiece_def getPiece_setPiece split: if_splits)
  with assms(2) show ?thesis by auto
qed

lemma stamped_placeServerPieces:
  "wfBoard b \<Longrightarrow> (\<And>r c p. getPiece b r c = Some p \<Longrightarrow> row p = r \<and> col p = c) \<Longrightarrow>
   getPiece (placeServerPieces b sps) r c = Some p \<Longrightarrow> row p = r \<and> col p = c"
proof (induction sps arbitrary: b)
  case Nil
  then show ?case by simp
next
  case (Cons e sps)
  show ?case
  proof (rule Cons.IH[of "placeServerPiece b e"])
    show "wfBoard (placeServerPiece b e)"
      using Cons.prems(1) by (rule wfBoard_placeServerPiece)
  next
    fix r' c' p'
    assume "getPiece (placeServerPiece b e) r' c' = Some p'"
    with Cons.prems(1,2) show "row p' = r' \<and> col p' = c'"
      by (rule stamped_placeServerPiece)
  next
    from Cons.prems(3) show "getPiece (placeServerPieces (placeServerPiece b e) sps) r c = Some p"
      by simp
  qed
qed

lemma stamped_updateFromServerState:
  "getPiece (updateFromServerState b sps) r c = Some p \<Longrightarrow> row p = r \<and> col p = c"
  unfolding updateFromServerState_def
  by (rule stamped_placeServerPieces[OF wfBoard_empty]) (simp_all add: getPiece_empty)

lemma getAllPieces_cell:
  "p \<in> set (getAllPieces b) \<Longrightarrow> \<exists>r c. isValidPosition (r, c) \<and> getPiece b r c = Some p"
proof -
  assume "p \<in> set (getAllPieces b)"
  then obtain r c where rc: "r < 8" "c < 10" "b ! r ! c = Some p"
    by (auto simp: getAllPieces_def split: option.splits)
  then have "isValidPosition (int r, int c) \<and> getPiece b (int r) (int c) = Some p"
    by (simp add: isValidPosition_def getPiece_def)
  then show ?thesis by blast
qed

section \<open>Claims about snapshot replacement\<close>

text \<open>
  Claim C8. A snapshot entry whose kind string is none of pawn, rook, knight, bishop,
  queen, king, mann is skipped by \<^verbatim>\<open>updateFromServerState\<close>: no piece is created
  for it, its loop iteration leaves the board as it was, and the board that results is
  the one the snapshot without that entry gives, so all other entries are placed as
  usual. (The model is total: no branch of the loop raises.)
\<close>

theorem unknown_type_skipped:
  "sp_type e \<notin> {''pawn'', ''rook'', ''knight'', ''bishop'', ''queen'', ''king'', ''mann''} \<Longrightarrow>
   createPieceFromType (sp_type e) (sp_color e) (sp_row e) (sp_col e) = None
   \<and> placeServerPiece b e = b
   \<and> updateFromServerState b0 (xs @ e # ys) = updateFromServerState b0 (xs @ ys)"
proof -
  assume u: "sp_type e \<notin> {''pawn'', ''rook'', ''knight'', ''bishop'', ''queen'', ''king'', ''mann''}"
  then have n: "createPieceFromType (sp_type e) (sp_color e) (sp_row e) (sp_col e) = None"
    by (rule createPieceFromType_unknown)
  then have p: "placeServerPiece b' e = b'" for b'
    by (simp add: placeServerPiece_def)
  then have "placeServerPieces emptyBoard (xs @ e # ys) = placeServerPieces emptyBoard (xs @ ys)"
    by (rule placeServerPieces_skip)
  with n p show ?thesis by (simp add: updateFromServerState_def)
qed

theorem unknown_type_skipped_witness:
  "sp_type (entry ''dragon'' White 2 2)
     \<notin> {''pawn'', ''rook'', ''knight'', ''bishop'', ''queen'', ''king'', ''mann''}
   \<and> getAllPieces (updateFromServerState emptyBoard
        ([entry ''pawn'' White 6 4] @ entry ''dragon'' White 2 2 # [entry ''king'' Black 0 5]))
     = [newPiece King Black 0 5, newPiece Pawn White 6 4]"
proof -
  have h: "sp_type (entry ''dragon'' White 2 2)
     \<notin> {''pawn'', ''rook'', ''knight'', ''bishop'', ''queen'', ''king'', ''mann''}"
    by (simp add: entry_def)
  have "getAllPieces (updateFromServerState emptyBoard
        ([entry ''pawn'' White 6 4] @ [entry ''king'' Black 0 5]))
     = [newPiece King Black 0 5, newPiece Pawn White 6 4]"
    by code_simp
  with unknown_type_skipped[OF h, of emptyBoard emptyBoard "[entry ''pawn'' White 6 4]"
      "[entry ''king'' Black 0 5]"] h
  show ?thesis by simp
qed

text \<open>
  Claim C10. The board accessors are total over integer coordinates: outside the board
  \<^verbatim>\<open>getPiece\<close> returns null and \<^verbatim>\<open>setPiece\<close> leaves the board unchanged, so
  snapshot replacement drops an entry whose coordinates are outside the board; and after
  a snapshot replacement every piece on the board has its row in [0,8) and its column in
  [0,10), and stands on the cell its own coordinates name.
\<close>

theorem board_accessors_total:
  "(\<not> isValidPosition (r, c) \<longrightarrow> getPiece b r c = None \<and> setPiece b r c p = b)
   \<and> (\<not> isValidPosition (sp_row e, sp_col e) \<longrightarrow>
        placeServerPiece b e = b
        \<and> updateFromServerState b (xs @ e # ys) = updateFromServerState b (xs @ ys))
   \<and> (\<forall>q \<in> set (getAllPieces (updateFromServerState b sps)).
        0 \<le> row q \<and> row q < 8 \<and> 0 \<le> col q \<and> col q < 10
        \<and> getPiece (updateFromServerState b sps) (row q) (col q) = Some q)"
proof (intro conjI impI ballI)
  assume "\<not> isValidPosition (r, c)"
  then show "getPiece b r c = None" and "setPiece b r c p = b"
    by (simp_all add: getPiece_def setPiece_def)
next
  assume o: "\<not> isValidPosition (sp_row e, sp_col e)"
  then have p: "placeServerPiece b' e = b'" for b'
    by (simp add: placeServerPiece_def setPiece_def split: option.splits)
  then show "placeServerPiece b e = b" .
  from p have "placeServerPieces emptyBoard (xs @ e # ys) = placeServerPieces emptyBoard (xs @ ys)"
    by (rule placeServerPieces_skip)
  then show "updateFromServerState b (xs @ e # ys) = updateFromServerState b (xs @ ys)"
    by (simp add: updateFromServerState_def)
next
  fix q
  assume "q \<in> set (getAllPieces (updateFromServerState b sps))"
  then obtain r' c' where v: "isValidPosition (r', c')"
      and g: "getPiece (updateFromServerState b sps) r' c' = Some q"
    by (blast dest: getAllPieces_cell)
  from g have rc: "row q = r' \<and> col q = c'"
    by (rule stamped_updateFromServerState)
  with v g show "0 \<le> row q" "row q < 8" "0 \<le> col q" "col q < 10"
      "getPiece (updateFromServerState b sps) (row q) (col q) = Some q"
    by (simp_all add: isValidPosition_def)
qed

theorem board_accessors_total_witness:
  "\<not> isValidPosition (8, 0)
   \<and> getPiece emptyBoard 8 0 = None
   \<and> setPiece emptyBoard 8 0 (Some (newPiece Rook Black 8 0)) = emptyBoard
   \<and> updateFromServerState emptyBoard
        ([entry ''pawn'' White 6 4] @ entry ''rook'' Black 8 0 # [entry ''king'' Black 0 5])
     = updateFromServerState emptyBoard ([entry ''pawn'' White 6 4] @ [entry ''king'' Black 0 5])
   \<and> newPiece Pawn White 6 4 \<in> set (getAllPieces (updateFromServerState emptyBoard
        [entry ''pawn'' White 6 4, entry ''rook'' Black 8 0, entry ''king'' Black 0 5]))
   \<and> getPiece (updateFromServerState emptyBoard
        [entry ''pawn'' White 6 4, entry ''rook'' Black 8 0, entry ''king'' Black 0 5]) 6 4
     = Some (newPiece Pawn White 6 4)"
proof -
  have v: "\<not> isValidPosition (8, 0)"
    by (simp add: isValidPosition_def)
  have m: "newPiece Pawn White 6 4 \<in> set (getAllPieces (updateFromServerState emptyBoard
        [entry ''pawn'' White 6 4, entry ''rook'' Black 8 0, entry ''king'' Black 0 5]))"
    by code_simp
  note t = board_accessors_total[of 8 0 emptyBoard "Some (newPiece Rook Black 8 0)"
      "entry ''rook'' Black 8 0" "[entry ''pawn'' White 6 4]" "[entry ''king'' Black 0 5]"
      "[entry ''pawn'' White 6 4, entry ''rook'' Black 8 0, entry ''king'' Black 0 5]"]
  from t v have a: "getPiece emptyBoard 8 0 = None"
      "setPiece emptyBoard 8 0 (Some (newPiece Rook Black 8 0)) = emptyBoard"
    by simp_all
  from t v have d: "updateFromServerState emptyBoard
        ([entry ''pawn'' White 6 4] @ entry ''rook'' Black 8 0 # [entry ''king'' Black 0 5])
     = updateFromServerState emptyBoard ([entry ''pawn'' White 6 4] @ [entry ''king'' Black 0 5])"
    by (simp add: entry_def)
  from t have "\<forall>q \<in> set (getAllPieces (updateFromServerState emptyBoard
        [entry ''pawn'' White 6 4, entry ''rook'' Black 8 0, entry ''king'' Black 0 5])).
      getPiece (updateFromServerState emptyBoard
        [entry ''pawn'' White 6 4, entry ''rook'' Black 8 0, entry ''king'' Black 0 5]) (row q) (col q)
      = Some q"
    by simp
  from bspec[OF this m] have g: "getPiece (updateFromServerState emptyBoard
        [entry ''pawn'' White 6 4, entry ''rook'' Black 8 0, entry ''king'' Black 0 5]) 6 4
     = Some (newPiece Pawn White 6 4)"
    by (simp add: newPiece_def)
  from v a d m g show ?thesis by simp
qed

section \<open>Pawn moves\<close>

lemma forward_capture_shape:
  "x \<in> set ((if A then one # (if H then (if B then [two] else []) else []) else []) @ filter P [l, r])
   \<longleftrightarrow> (x = one \<and> A) \<or> (x = two \<and> A \<and> H \<and> B) \<or> (x = l \<and> P l) \<or> (x = r \<and> P r)"
  by auto

lemma opponent_cell:
  "(case getPiece b r c of None \<Rightarrow> False | Some q \<Rightarrow> isOpponent p q)
   \<longleftrightarrow> (\<exists>q. getPiece b r c = Some q \<and> color q \<noteq> color p)"
  by (auto simp: isOpponent_def split: option.splits)

lemma Pawn_mem:
  assumes "d = (if color p = White then - 1 else 1)" and "home = (if color p = White then 6 else 1)"
  shows "pos \<in> set (Pawn_getValidMoves p b) \<longleftrightarrow>
     (pos = (row p + d, col p)
        \<and> isValidPosition (row p + d, col p) \<and> getPiece b (row p + d) (col p) = None)
   \<or> (pos = (row p + 2 * d, col p)
        \<and> (isValidPosition (row p + d, col p) \<and> getPiece b (row p + d) (col p) = None)
        \<and> row p = home
        \<and> (isValidPosition (row p + 2 * d, col p) \<and> getPiece b (row p + 2 * d) (col p) = None))
   \<or> (pos = (row p + d, col p - 1) \<and> isValidPosition (row p + d, col p - 1)
        \<and> (\<exists>q. getPiece b (row p + d) (col p - 1) = Some q \<and> color q \<noteq> color p))
   \<or> (pos = (row p + d, col p + 1) \<and> isValidPosition (row p + d, col p + 1)
        \<and> (\<exists>q. getPiece b (row p + d) (col p + 1) = Some q \<and> color q \<noteq> color p))"
proof -
  have "Pawn_getValidMoves p b =
      (if isValidPosition (row p + d, col p) \<and> getPiece b (row p + d) (col p) = None
       then (row p + d, col p) #
            (if row p = home
             then (if isValidPosition (row p + 2 * d, col p) \<and> getPiece b (row p + 2 * d) (col p) = None
                   then [(row p + 2 * d, col p)] else [])
             else [])
       else []) @
      filter (\<lambda>capturePos. isValidPosition capturePos \<and>
                (case getPiece b (fst capturePos) (snd capturePos) of
                   None \<Rightarrow> False | Some q \<Rightarrow> isOpponent p q))
        [(row p + d, col p - 1), (row p + d, col p + 1)]"
    unfolding Pawn_getValidMoves_def Let_def fst_conv snd_conv assms by (rule refl)
  then show ?thesis
    by (simp only: forward_capture_shape fst_conv snd_conv opponent_cell)
qed

text \<open>
  Claim C4. With \<open>d\<close> the forward direction of the pawn (\<open>-1\<close> rows for white, \<open>+1\<close> for
  black) and \<open>home\<close> its home row (6 for white, 1 for black): the square one step forward
  is offered exactly when it is on the board and empty; the square two steps forward is
  offered exactly when the pawn stands on its home row and both the square between and the
  destination are on the board and empty; each of the two forward diagonal squares is
  offered exactly when it is on the board and holds a piece of the other colour; and
  nothing else is offered. In the example, a lone white pawn at (6,4), selected, has the
  destinations (5,4) and (4,4); with a black piece added at (5,3) they are (5,4), (4,4)
  and (5,3); with a white piece added at (5,4) only (5,3) remains.
\<close>

theorem pawn_moves:
  "d = (if color p = White then - 1 else 1) \<Longrightarrow> home = (if color p = White then 6 else 1) \<Longrightarrow>
   ((row p + d, col p) \<in> set (Pawn_getValidMoves p b) \<longleftrightarrow>
      isValidPosition (row p + d, col p) \<and> getPiece b (row p + d) (col p) = None)
   \<and> ((row p + 2 * d, col p) \<in> set (Pawn_getValidMoves p b) \<longleftrightarrow>
      row p = home
      \<and> isValidPosition (row p + d, col p) \<and> getPiece b (row p + d) (col p) = None
      \<and> isValidPosition (row p + 2 * d, col p) \<and> getPiece b (row p + 2 * d) (col p) = None)
   \<and> (\<forall>dc \<in> {- 1, 1}. (row p + d, col p + dc) \<in> set (Pawn_getValidMoves p b) \<longleftrightarrow>
      isValidPosition (row p + d, col p + dc)
      \<and> (\<exists>q. getPiece b (row p + d) (col p + dc) = Some q \<and> color q \<noteq> color p))
   \<and> set (Pawn_getValidMoves p b) \<subseteq>
      {(row p + d, col p), (row p + 2 * d, col p), (row p + d, col p - 1), (row p + d, col p + 1)}
   \<and> set (getValidMovesForSelected (updateFromServer
        (snapshot [entry ''pawn'' White 6 4] ''playing'' ''s1'' 6 4)
        (newGame (Some []) (Player White) ''s1''))) = {(5, 4), (4, 4)}
   \<and> set (getValidMovesForSelected (updateFromServer
        (snapshot [entry ''pawn'' White 6 4, entry ''pawn'' Black 5 3] ''playing'' ''s1'' 6 4)
        (newGame (Some []) (Player White) ''s1''))) = {(5, 4), (4, 4), (5, 3)}
   \<and> set (getValidMovesForSelected (updateFromServer
        (snapshot [entry ''pawn'' White 6 4, entry ''pawn'' Black 5 3, entry ''knight'' White 5 4]
           ''playing'' ''s1'' 6 4)
        (newGame (Some []) (Player White) ''s1''))) = {(5, 3)}"
proof -
  assume d: "d = (if color p = White then - 1 else 1)"
    and home: "home = (if color p = White then 6 else 1)"
  note mem = Pawn_mem[OF d home]
  from d have d1: "d = 1 \<or> d = - 1" by simp
  have A: "(row p + d, col p) \<in> set (Pawn_getValidMoves p b) \<longleftrightarrow>
      isValidPosition (row p + d, col p) \<and> getPiece b (row p + d) (col p) = None"
    using d1 by (auto simp: mem)
  have B: "(row p + 2 * d, col p) \<in> set (Pawn_getValidMoves p b) \<longleftrightarrow>
      row p = home
      \<and> isValidPosition (row p + d, col p) \<and> getPiece b (row p + d) (col p) = None
      \<and> isValidPosition (row p + 2 * d, col p) \<and> getPiece b (row p + 2 * d) (col p) = None"
    using d1 by (auto simp: mem)
  have C: "(row p + d, col p + dc) \<in> set (Pawn_getValidMoves p b) \<longleftrightarrow>
      isValidPosition (row p + d, col p + dc)
      \<and> (\<exists>q. getPiece b (row p + d) (col p + dc) = Some q \<and> color q \<noteq> color p)"
    if "dc \<in> {- 1, 1}" for dc
    using that d1 by (auto simp: mem)
  have D: "set (Pawn_getValidMoves p b) \<subseteq>
      {(row p + d, col p), (row p + 2 * d, col p), (row p + d, col p - 1), (row p + d, col p + 1)}"
    using mem by blast
  have "getValidMovesForSelected (updateFromServer
        (snapshot [entry ''pawn'' White 6 4] ''playing'' ''s1'' 6 4)
        (newGame (Some []) (Player White) ''s1'')) = [(5, 4), (4, 4)]"
    by code_simp
  then have E1: "set (getValidMovesForSelected (updateFromServer
        (snapshot [entry ''pawn'' White 6 4] ''playing'' ''s1'' 6 4)
        (newGame (Some []) (Player White) ''s1''))) = {(5, 4), (4, 4)}"
    by simp
  have "getValidMovesForSelected (updateFromServer
        (snapshot [entry ''pawn'' White 6 4, entry ''pawn'' Black 5 3] ''playing'' ''s1'' 6 4)
        (newGame (Some []) (Player White) ''s1'')) = [(5, 4), (4, 4), (5, 3)]"
    by code_simp
  then have E2: "set (getValidMovesForSelected (updateFromServer
        (snapshot [entry ''pawn'' White 6 4, entry ''pawn'' Black 5 3] ''playing'' ''s1'' 6 4)
        (newGame (Some []) (Player White) ''s1''))) = {(5, 4), (4, 4), (5, 3)}"
    by simp
  have "getValidMovesForSelected (updateFromServer
        (snapshot [entry ''pawn'' White 6 4, entry ''pawn'' Black 5 3, entry ''knight'' White 5 4]
           ''playing'' ''s1'' 6 4)
        (newGame (Some []) (Player White) ''s1'')) = [(5, 3)]"
    by code_simp
  then have E3: "set (getValidMovesForSelected (updateFromServer
        (snapshot [entry ''pawn'' White 6 4, entry ''pawn'' Black 5 3, entry ''knight'' White 5 4]
           ''playing'' ''s1'' 6 4)
        (newGame (Some []) (Player White) ''s1''))) = {(5, 3)}"
    by simp
  from A B C D E1 E2 E3 show ?thesis
    by (intro conjI ballI)
qed

theorem pawn_moves_witness:
  "(1::int) = (if color (newPiece Pawn Black 1 2) = White then - 1 else 1)
   \<and> (1::int) = (if color (newPiece Pawn Black 1 2) = White then 6 else 1)
   \<and> (2, 2) \<in> set (Pawn_getValidMoves (newPiece Pawn Black 1 2)
        (updateFromServerState emptyBoard
           [entry ''pawn'' Black 1 2, entry ''rook'' White 2 3, entry ''rook'' Black 2 1]))
   \<and> Pawn_getValidMoves (newPiece Pawn Black 1 2)
        (updateFromServerState emptyBoard
           [entry ''pawn'' Black 1 2, entry ''rook'' White 2 3, entry ''rook'' Black 2 1])
     = [(2, 2), (3, 2), (2, 3)]"
proof -
  have d: "(1::int) = (if color (newPiece Pawn Black 1 2) = White then - 1 else 1)"
    and h: "(1::int) = (if color (newPiece Pawn Black 1 2) = White then 6 else 1)"
    by (simp_all add: newPiece_def)
  have l: "Pawn_getValidMoves (newPiece Pawn Black 1 2)
        (updateFromServerState emptyBoard
           [entry ''pawn'' Black 1 2, entry ''rook'' White 2 3, entry ''rook'' Black 2 1])
     = [(2, 2), (3, 2), (2, 3)]"
    by code_simp
  have e: "isValidPosition (2, 2) \<and> getPiece (updateFromServerState emptyBoard
           [entry ''pawn'' Black 1 2, entry ''rook'' White 2 3, entry ''rook'' Black 2 1]) 2 2 = None"
    by code_simp
  from pawn_moves[OF d h, of "updateFromServerState emptyBoard
           [entry ''pawn'' Black 1 2, entry ''rook'' White 2 3, entry ''rook'' Black 2 1]"] e
  have m: "(2, 2) \<in> set (Pawn_getValidMoves (newPiece Pawn Black 1 2)
        (updateFromServerState emptyBoard
           [entry ''pawn'' Black 1 2, entry ''rook'' White 2 3, entry ''rook'' Black 2 1]))"
    by (simp add: newPiece_def)
  from d h m l show ?thesis by simp
qed

section \<open>Claims about selection and intents\<close>

text \<open>
  Claim C9. When the snapshot names the own session as the selecting one but the selected
  coordinates point at an empty square (an empty cell of the rebuilt board; in particular
  a square no snapshot entry names) or outside the board, \<^verbatim>\<open>updateFromServer\<close> leaves
  no local selection, and no branch raises; when the snapshot names another session, the
  local selection is cleared.
\<close>

theorem stale_selection_cleared:
  "(selectedPiecePlayer rs = playerSessionId g \<longrightarrow>
      (getPiece (updateFromServerState (board g) (pieces rs)) (selectedRow rs) (selectedCol rs) = None
         \<longrightarrow> selectedPiece (updateFromServer rs g) = None)
    \<and> ((\<forall>e \<in> set (pieces rs). (sp_row e, sp_col e) \<noteq> (selectedRow rs, selectedCol rs))
         \<longrightarrow> selectedPiece (updateFromServer rs g) = None)
    \<and> (\<not> isValidPosition (selectedRow rs, selectedCol rs)
         \<longrightarrow> selectedPiece (updateFromServer rs g) = None))
   \<and> (selectedPiecePlayer rs \<noteq> playerSessionId g \<longrightarrow>
        selectedPiece (updateFromServer rs g) = None)"
proof -
  have 1: "getPiece (updateFromServerState (board g) (pieces rs)) (selectedRow rs) (selectedCol rs) = None"
    if "\<forall>e \<in> set (pieces rs). (sp_row e, sp_col e) \<noteq> (selectedRow rs, selectedCol rs)"
    using that
    by (simp add: updateFromServerState_def getPiece_placeServerPieces_other[OF wfBoard_empty]
        getPiece_empty)
  have 2: "getPiece b (selectedRow rs) (selectedCol rs) = None"
    if "\<not> isValidPosition (selectedRow rs, selectedCol rs)" for b
    using that by (simp add: getPiece_def)
  show ?thesis
    using 1 2 by (simp add: updateFromServer_def Let_def)
qed

theorem stale_selection_cleared_witness:
  "selectedPiece (updateFromServer (snapshot [entry ''pawn'' White 6 4] ''playing'' ''s1'' 3 3)
      (newGame (Some []) (Player White) ''s1'')) = None
   \<and> selectedPiece (updateFromServer (snapshot [entry ''pawn'' White 6 4] ''playing'' ''s1'' (- 1) (- 1))
      (newGame (Some []) (Player White) ''s1'')) = None
   \<and> selectedPiece (updateFromServer (snapshot [entry ''pawn'' White 6 4] ''playing'' ''s2'' 6 4)
      (newGame (Some []) (Player White) ''s1'')) = None
   \<and> selectedPiece (updateFromServer (snapshot [entry ''pawn'' White 6 4] ''playing'' ''s1'' 6 4)
      (newGame (Some []) (Player White) ''s1'')) = Some (newPiece Pawn White 6 4)"
proof -
  have a: "selectedPiece (updateFromServer (snapshot [entry ''pawn'' White 6 4] ''playing'' ''s1'' 3 3)
      (newGame (Some []) (Player White) ''s1'')) = None"
    using stale_selection_cleared[of "snapshot [entry ''pawn'' White 6 4] ''playing'' ''s1'' 3 3"
        "newGame (Some []) (Player White) ''s1''"]
    by (simp add: snapshot_def newGame_def entry_def)
  have b: "selectedPiece (updateFromServer (snapshot [entry ''pawn'' White 6 4] ''playing'' ''s1'' (- 1) (- 1))
      (newGame (Some []) (Player White) ''s1'')) = None"
    using stale_selection_cleared[of "snapshot [entry ''pawn'' White 6 4] ''playing'' ''s1'' (- 1) (- 1)"
        "newGame (Some []) (Player White) ''s1''"]
    by (simp add: snapshot_def newGame_def isValidPosition_def)
  have c: "selectedPiece (updateFromServer (snapshot [entry ''pawn'' White 6 4] ''playing'' ''s2'' 6 4)
      (newGame (Some []) (Player White) ''s1'')) = None"
    using stale_selection_cleared[of "snapshot [entry ''pawn'' White 6 4] ''playing'' ''s2'' 6 4"
        "newGame (Some []) (Player White) ''s1''"]
    by (simp add: snapshot_def newGame_def)
  have d: "selectedPiece (updateFromServer (snapshot [entry ''pawn'' White 6 4] ''playing'' ''s1'' 6 4)
      (newGame (Some []) (Player White) ''s1'')) = Some (newPiece Pawn White 6 4)"
    by code_simp
  from a b c d show ?thesis by simp
qed

lemma roomSend_observable: "observable (roomSend m g) = observable g"
  by (simp add: roomSend_def observable_def split: option.splits)

lemma selectPiece_observable: "observable (snd (selectPiece r c g)) = observable g"
  by (simp add: selectPiece_def roomSend_observable split: option.splits)

lemma makeMove_observable: "observable (snd (makeMove r c g)) = observable g"
  by (simp add: makeMove_def Let_def roomSend_observable split: option.splits)

section \<open>Invariants of the running client\<close>

lemma roomSend_fields:
  "board (roomSend m g) = board g" "selectedPiece (roomSend m g) = selectedPiece g"
  "(room (roomSend m g) = None) = (room g = None)"
  by (simp_all add: roomSend_def split: option.splits)

lemma selectPiece_fields:
  "board (snd (selectPiece r c g)) = board g"
  "selectedPiece (snd (selectPiece r c g)) = selectedPiece g"
  "(room (snd (selectPiece r c g)) = None) = (room g = None)"
  by (simp_all add: selectPiece_def roomSend_fields split: option.splits)

lemma makeMove_fields:
  "board (snd (makeMove r c g)) = board g"
  "selectedPiece (snd (makeMove r c g)) = selectedPiece g"
  "(room (snd (makeMove r c g)) = None) = (room g = None)"
  by (simp_all add: makeMove_def Let_def roomSend_fields split: option.splits)

lemma updateFromServer_room: "room (updateFromServer rs g) = room g"
  by (simp add: updateFromServer_def Let_def)

lemma updateFromServer_selected:
  "selectedPiece (updateFromServer rs g) = Some sel \<Longrightarrow>
   getPiece (board (updateFromServer rs g)) (row sel) (col sel) = Some sel"
proof -
  assume a: "selectedPiece (updateFromServer rs g) = Some sel"
  let ?b = "updateFromServerState (board g) (pieces rs)"
  from a have g: "getPiece ?b (selectedRow rs) (selectedCol rs) = Some sel"
    by (simp add: updateFromServer_def Let_def split: if_splits)
  then have "row sel = selectedRow rs \<and> col sel = selectedCol rs"
    by (rule stamped_updateFromServerState)
  with g show ?thesis
    by (simp add: updateFromServer_def Let_def)
qed

lemma reachable_no_room:
  "reachable g \<Longrightarrow> room g = None \<Longrightarrow> board g = emptyBoard \<and> selectedPiece g = None"
proof (induction rule: reachable.induct)
  case (start pc)
  show ?case by (simp add: newGame_def)
next
  case (connectToRoom g sid)
  then show ?case by simp
next
  case (onGameState g pc)
  then show ?case by simp
next
  case (onStateChange g rs)
  then show ?case by (simp add: updateFromServer_room)
next
  case (clickSelect g r c)
  then show ?case by (simp add: selectPiece_fields)
next
  case (clickDeselect g)
  then show ?case by (simp add: deselectPiece_def roomSend_fields)
next
  case (clickMove g r c)
  then show ?case by (simp add: makeMove_fields)
next
  case (clickRestart g)
  then show ?case by (simp add: roomSend_fields)
qed

lemma reachable_selected_on_board:
  "reachable g \<Longrightarrow> selectedPiece g = Some sel \<Longrightarrow>
   getPiece (board g) (row sel) (col sel) = Some sel"
proof (induction rule: reachable.induct)
  case (start pc)
  then show ?case by (simp add: newGame_def)
next
  case (connectToRoom g sid)
  then show ?case by simp
next
  case (onGameState g pc)
  then show ?case by simp
next
  case (onStateChange g rs)
  from onStateChange.prems show ?case by (rule updateFromServer_selected)
next
  case (clickSelect g r c)
  then show ?case by (simp add: selectPiece_fields)
next
  case (clickDeselect g)
  then show ?case by (simp add: deselectPiece_def roomSend_fields)
next
  case (clickMove g r c)
  then show ?case by (simp add: makeMove_fields)
next
  case (clickRestart g)
  then show ?case by (simp add: roomSend_fields)
qed

lemma reachable_connected: "reachable (newGame (Some []) pc sid)"
proof -
  have "reachable (newGame None pc [])" by (rule reachable.start)
  then have "reachable ((newGame None pc [])\<lparr>room := Some [], playerSessionId := sid\<rparr>)"
    by (rule reachable.connectToRoom)
  then show ?thesis by (simp add: newGame_def)
qed

lemma reachable_after_snapshot: "reachable (updateFromServer rs (newGame (Some []) pc sid))"
  by (rule reachable.onStateChange[OF reachable_connected]) (simp add: newGame_def)

section \<open>The two gated intents\<close>

lemma selectPiece_result:
  "selectPiece r c g =
     (if (\<exists>p. getPiece (board g) r c = Some p \<and> Player (color p) = playerColor g)
          \<and> Player (currentPlayer g) = playerColor g
      then (True, roomSend (Select r c) g) else (False, g))"
proof (cases "getPiece (board g) r c")
  case None
  then show ?thesis by (simp add: selectPiece_def)
next
  case (Some p)
  then show ?thesis by (auto simp: selectPiece_def)
qed

lemma list_ex_square:
  "list_ex (\<lambda>move. fst move = r \<and> snd move = c) xs \<longleftrightarrow> (r, c) \<in> set xs"
  by (induction xs) auto

lemma makeMove_result:
  "makeMove toRow toCol g =
     (case selectedPiece g of
        None \<Rightarrow> (False, g)
      | Some sel \<Rightarrow>
          (if playerColor g \<noteq> Spectator \<and> (toRow, toCol) \<in> set (getValidMovesForSelected g)
           then (True, roomSend (Move (row sel) (col sel) toRow toCol) g) else (False, g)))"
  by (simp add: makeMove_def Let_def list_ex_square split: option.splits)

lemma roomSend_connected: "room g = Some out \<Longrightarrow> roomSend m g = g\<lparr>room := Some (out @ [m])\<rparr>"
  by (simp add: roomSend_def)

text \<open>
  \<^verbatim>\<open>selectPiece\<close> does not read the game status. In the state a connected white
  player is in after a snapshot with status \<^verbatim>\<open>'waiting'\<close> and white to move,
  \<^verbatim>\<open>canPlayerAct\<close> is false, yet selecting the own pawn on (6,4) succeeds and sends
  the selection. (The selecting session of this snapshot is the empty string.)
\<close>

theorem select_ignores_status:
  "reachable (updateFromServer (snapshot [entry ''pawn'' White 6 4, entry ''pawn'' Black 1 4] ''waiting'' [] (- 1) (- 1)) (newGame (Some []) (Player White) ''s1''))
   \<and> \<not> canPlayerAct (updateFromServer (snapshot [entry ''pawn'' White 6 4, entry ''pawn'' Black 1 4] ''waiting'' [] (- 1) (- 1)) (newGame (Some []) (Player White) ''s1''))
   \<and> fst (selectPiece 6 4 (updateFromServer (snapshot [entry ''pawn'' White 6 4, entry ''pawn'' Black 1 4] ''waiting'' [] (- 1) (- 1)) (newGame (Some []) (Player White) ''s1'')))
   \<and> room (snd (selectPiece 6 4 (updateFromServer (snapshot [entry ''pawn'' White 6 4, entry ''pawn'' Black 1 4] ''waiting'' [] (- 1) (- 1)) (newGame (Some []) (Player White) ''s1'')))) = Some [Select 6 4]"
proof -
  have "reachable (updateFromServer (snapshot [entry ''pawn'' White 6 4, entry ''pawn'' Black 1 4] ''waiting'' [] (- 1) (- 1)) (newGame (Some []) (Player White) ''s1''))"
    by (rule reachable_after_snapshot)
  moreover have "\<not> canPlayerAct (updateFromServer (snapshot [entry ''pawn'' White 6 4, entry ''pawn'' Black 1 4] ''waiting'' [] (- 1) (- 1)) (newGame (Some []) (Player White) ''s1''))
   \<and> fst (selectPiece 6 4 (updateFromServer (snapshot [entry ''pawn'' White 6 4, entry ''pawn'' Black 1 4] ''waiting'' [] (- 1) (- 1)) (newGame (Some []) (Player White) ''s1'')))
   \<and> room (snd (selectPiece 6 4 (updateFromServer (snapshot [entry ''pawn'' White 6 4, entry ''pawn'' Black 1 4] ''waiting'' [] (- 1) (- 1)) (newGame (Some []) (Player White) ''s1'')))) = Some [Select 6 4]"
    by code_simp
  ultimately show ?thesis by simp
qed

text \<open>
  Claim C1, as the code has it. \<^verbatim>\<open>selectPiece\<close> succeeds exactly when a piece occupies
  the clicked square, its colour equals the own role and it is that side's turn (so the own
  role is a playing side); the game status is not consulted, so \<^verbatim>\<open>canPlayerAct\<close> is
  sufficient for the role and turn conditions but not necessary for success. On failure
  the state, the room's outbox included, is unchanged. On success, in every state a
  running client can be in, the only change is that the room has received one selection
  message carrying the coordinates.
\<close>

theorem selectPiece_gate:
  "(fst (selectPiece r c g) \<longleftrightarrow>
      (\<exists>p. getPiece (board g) r c = Some p \<and> Player (color p) = playerColor g)
      \<and> Player (currentPlayer g) = playerColor g)
   \<and> (fst (selectPiece r c g) \<longrightarrow> playerColor g \<noteq> Spectator)
   \<and> (canPlayerAct g \<and> (\<exists>p. getPiece (board g) r c = Some p \<and> Player (color p) = playerColor g)
        \<longrightarrow> fst (selectPiece r c g))
   \<and> (\<not> fst (selectPiece r c g) \<longrightarrow> snd (selectPiece r c g) = g)
   \<and> (reachable g \<and> fst (selectPiece r c g) \<longrightarrow>
        (\<exists>out. room g = Some out
           \<and> snd (selectPiece r c g) = g\<lparr>room := Some (out @ [Select r c])\<rparr>))"
proof -
  let ?ok = "(\<exists>p. getPiece (board g) r c = Some p \<and> Player (color p) = playerColor g)
      \<and> Player (currentPlayer g) = playerColor g"
  note res = selectPiece_result[of r c g]
  have 1: "fst (selectPiece r c g) \<longleftrightarrow> ?ok"
    by (simp add: res)
  have 2: "playerColor g \<noteq> Spectator" if "fst (selectPiece r c g)"
    using that 1 by auto
  have 3: "fst (selectPiece r c g)"
    if "canPlayerAct g \<and> (\<exists>p. getPiece (board g) r c = Some p \<and> Player (color p) = playerColor g)"
    using that 1 by (simp add: canPlayerAct_def)
  have 4: "snd (selectPiece r c g) = g" if "\<not> fst (selectPiece r c g)"
    using that by (auto simp: res split: if_splits)
  have 5: "\<exists>out. room g = Some out \<and> snd (selectPiece r c g) = g\<lparr>room := Some (out @ [Select r c])\<rparr>"
    if "reachable g \<and> fst (selectPiece r c g)"
  proof -
    from that 1 obtain p where p: "getPiece (board g) r c = Some p" by blast
    have "room g \<noteq> None"
    proof
      assume "room g = None"
      with that have "board g = emptyBoard" by (simp add: reachable_no_room)
      with p show False by (simp add: getPiece_empty)
    qed
    then obtain out where out: "room g = Some out" by blast
    from that 1 have "snd (selectPiece r c g) = roomSend (Select r c) g"
      by (simp add: res)
    with out show ?thesis by (simp add: roomSend_connected)
  qed
  from 1 2 3 4 5 show ?thesis by blast
qed

theorem selectPiece_gate_witness:
  "reachable (updateFromServer (snapshot [entry ''pawn'' White 6 4, entry ''pawn'' Black 1 4] ''playing'' [] (- 1) (- 1)) (newGame (Some []) (Player White) ''s1''))
   \<and> canPlayerAct (updateFromServer (snapshot [entry ''pawn'' White 6 4, entry ''pawn'' Black 1 4] ''playing'' [] (- 1) (- 1)) (newGame (Some []) (Player White) ''s1''))
   \<and> fst (selectPiece 6 4 (updateFromServer (snapshot [entry ''pawn'' White 6 4, entry ''pawn'' Black 1 4] ''playing'' [] (- 1) (- 1)) (newGame (Some []) (Player White) ''s1'')))
   \<and> snd (selectPiece 6 4 (updateFromServer (snapshot [entry ''pawn'' White 6 4, entry ''pawn'' Black 1 4] ''playing'' [] (- 1) (- 1)) (newGame (Some []) (Player White) ''s1'')))
     = (updateFromServer (snapshot [entry ''pawn'' White 6 4, entry ''pawn'' Black 1 4] ''playing'' [] (- 1) (- 1)) (newGame (Some []) (Player White) ''s1''))\<lparr>room := Some [Select 6 4]\<rparr>
   \<and> \<not> fst (selectPiece 1 4 (updateFromServer (snapshot [entry ''pawn'' White 6 4, entry ''pawn'' Black 1 4] ''playing'' [] (- 1) (- 1)) (newGame (Some []) (Player White) ''s1'')))
   \<and> snd (selectPiece 1 4 (updateFromServer (snapshot [entry ''pawn'' White 6 4, entry ''pawn'' Black 1 4] ''playing'' [] (- 1) (- 1)) (newGame (Some []) (Player White) ''s1''))) = (updateFromServer (snapshot [entry ''pawn'' White 6 4, entry ''pawn'' Black 1 4] ''playing'' [] (- 1) (- 1)) (newGame (Some []) (Player White) ''s1''))"
proof -
  let ?g = "(updateFromServer (snapshot [entry ''pawn'' White 6 4, entry ''pawn'' Black 1 4] ''playing'' [] (- 1) (- 1)) (newGame (Some []) (Player White) ''s1''))"
  have re: "reachable ?g" by (rule reachable_after_snapshot)
  have c: "canPlayerAct ?g" and pc: "playerColor ?g = Player White" and rm: "room ?g = Some []"
    and own: "getPiece (board ?g) 6 4 = Some (newPiece Pawn White 6 4)"
    and opp: "getPiece (board ?g) 1 4 = Some (newPiece Pawn Black 1 4)"
    by code_simp+
  from own pc have "\<exists>p. getPiece (board ?g) 6 4 = Some p \<and> Player (color p) = playerColor ?g"
    by (simp add: newPiece_def)
  with c selectPiece_gate[of 6 4 ?g] have ok: "fst (selectPiece 6 4 ?g)"
    by blast
  with re selectPiece_gate[of 6 4 ?g]
  obtain out where "room ?g = Some out"
      and "snd (selectPiece 6 4 ?g) = ?g\<lparr>room := Some (out @ [Select 6 4])\<rparr>"
    by blast
  with rm have sent: "snd (selectPiece 6 4 ?g) = ?g\<lparr>room := Some [Select 6 4]\<rparr>"
    by simp
  from opp pc have "\<not> (\<exists>p. getPiece (board ?g) 1 4 = Some p \<and> Player (color p) = playerColor ?g)"
    by (simp add: newPiece_def)
  with selectPiece_gate[of 1 4 ?g] have no: "\<not> fst (selectPiece 1 4 ?g)" "snd (selectPiece 1 4 ?g) = ?g"
    by blast+
  from re c ok sent no show ?thesis by blast
qed

text \<open>
  Claim C2. \<^verbatim>\<open>makeMove\<close> fails, leaving the state and the room's outbox unchanged,
  if there is no local selection, if the own role is spectator, or if the target square is
  not among \<^verbatim>\<open>getValidMovesForSelected()\<close>; otherwise it returns true. On success, in
  every state a running client can be in, the only change is that the room has received
  exactly one move message, carrying the coordinates of the selected piece (the square it
  stands on) and the target.
\<close>

theorem makeMove_gate:
  "(fst (makeMove toRow toCol g) \<longleftrightarrow>
      selectedPiece g \<noteq> None \<and> playerColor g \<noteq> Spectator
      \<and> (toRow, toCol) \<in> set (getValidMovesForSelected g))
   \<and> (\<not> fst (makeMove toRow toCol g) \<longrightarrow> snd (makeMove toRow toCol g) = g)
   \<and> (reachable g \<and> fst (makeMove toRow toCol g) \<longrightarrow>
        (\<exists>sel out. selectedPiece g = Some sel
           \<and> getPiece (board g) (row sel) (col sel) = Some sel
           \<and> room g = Some out
           \<and> snd (makeMove toRow toCol g)
               = g\<lparr>room := Some (out @ [Move (row sel) (col sel) toRow toCol])\<rparr>))"
proof -
  note res = makeMove_result[of toRow toCol g]
  have 1: "fst (makeMove toRow toCol g) \<longleftrightarrow>
      selectedPiece g \<noteq> None \<and> playerColor g \<noteq> Spectator
      \<and> (toRow, toCol) \<in> set (getValidMovesForSelected g)"
    by (simp add: res split: option.splits)
  have 2: "snd (makeMove toRow toCol g) = g" if "\<not> fst (makeMove toRow toCol g)"
    using that by (auto simp: res split: option.splits if_splits)
  have 3: "\<exists>sel out. selectedPiece g = Some sel
           \<and> getPiece (board g) (row sel) (col sel) = Some sel
           \<and> room g = Some out
           \<and> snd (makeMove toRow toCol g)
               = g\<lparr>room := Some (out @ [Move (row sel) (col sel) toRow toCol])\<rparr>"
    if "reachable g \<and> fst (makeMove toRow toCol g)"
  proof -
    from that 1 obtain sel where sel: "selectedPiece g = Some sel" by blast
    with that have on: "getPiece (board g) (row sel) (col sel) = Some sel"
      by (simp add: reachable_selected_on_board)
    have "room g \<noteq> None"
    proof
      assume "room g = None"
      with that have "selectedPiece g = None" by (simp add: reachable_no_room)
      with sel show False by simp
    qed
    then obtain out where out: "room g = Some out" by blast
    from that 1 sel have "snd (makeMove toRow toCol g) = roomSend (Move (row sel) (col sel) toRow toCol) g"
      by (simp add: res)
    with out have "snd (makeMove toRow toCol g)
        = g\<lparr>room := Some (out @ [Move (row sel) (col sel) toRow toCol])\<rparr>"
      by (simp add: roomSend_connected)
    with sel on out show ?thesis by blast
  qed
  from 1 2 3 show ?thesis by blast
qed

theorem makeMove_gate_witness:
  "reachable (updateFromServer (snapshot [entry ''pawn'' White 6 4] ''playing'' ''s1'' 6 4) (newGame (Some []) (Player White) ''s1''))
   \<and> fst (makeMove 5 4 (updateFromServer (snapshot [entry ''pawn'' White 6 4] ''playing'' ''s1'' 6 4) (newGame (Some []) (Player White) ''s1'')))
   \<and> snd (makeMove 5 4 (updateFromServer (snapshot [entry ''pawn'' White 6 4] ''playing'' ''s1'' 6 4) (newGame (Some []) (Player White) ''s1'')))
     = (updateFromServer (snapshot [entry ''pawn'' White 6 4] ''playing'' ''s1'' 6 4) (newGame (Some []) (Player White) ''s1''))\<lparr>room := Some [Move 6 4 5 4]\<rparr>
   \<and> \<not> fst (makeMove 3 3 (updateFromServer (snapshot [entry ''pawn'' White 6 4] ''playing'' ''s1'' 6 4) (newGame (Some []) (Player White) ''s1'')))
   \<and> snd (makeMove 3 3 (updateFromServer (snapshot [entry ''pawn'' White 6 4] ''playing'' ''s1'' 6 4) (newGame (Some []) (Player White) ''s1''))) = (updateFromServer (snapshot [entry ''pawn'' White 6 4] ''playing'' ''s1'' 6 4) (newGame (Some []) (Player White) ''s1''))"
proof -
  let ?g = "(updateFromServer (snapshot [entry ''pawn'' White 6 4] ''playing'' ''s1'' 6 4) (newGame (Some []) (Player White) ''s1''))"
  have re: "reachable ?g" by (rule reachable_after_snapshot)
  have sel: "selectedPiece ?g = Some (newPiece Pawn White 6 4)"
    and pc: "playerColor ?g \<noteq> Spectator" and rm: "room ?g = Some []"
    and legal: "(5, 4) \<in> set (getValidMovesForSelected ?g)"
    and illegal: "(3, 3) \<notin> set (getValidMovesForSelected ?g)"
    by code_simp+
  from sel pc legal makeMove_gate[of 5 4 ?g] have ok: "fst (makeMove 5 4 ?g)"
    by simp
  with re makeMove_gate[of 5 4 ?g]
  obtain s out where "selectedPiece ?g = Some s" and "room ?g = Some out"
      and "snd (makeMove 5 4 ?g) = ?g\<lparr>room := Some (out @ [Move (row s) (col s) 5 4])\<rparr>"
    by blast
  with sel rm have sent: "snd (makeMove 5 4 ?g) = ?g\<lparr>room := Some [Move 6 4 5 4]\<rparr>"
    by (simp add: newPiece_def)
  from illegal makeMove_gate[of 3 3 ?g] have no: "\<not> fst (makeMove 3 3 ?g)" "snd (makeMove 3 3 ?g) = ?g"
    by blast+
  from re ok sent no show ?thesis by blast
qed

text \<open>
  Claim C6. \<^verbatim>\<open>selectPiece\<close> and \<^verbatim>\<open>makeMove\<close>, successful or not, leave the board, the
  current turn, the game status and the local selection as they were; of the ten methods of
  the controller only \<^verbatim>\<open>updateFromServer\<close> can change any of the four.
\<close>

theorem intents_do_not_mutate:
  "observable (snd (selectPiece r c g)) = observable g
   \<and> observable (snd (makeMove r c g)) = observable g
   \<and> (observable (run op g) \<noteq> observable g \<longrightarrow> (\<exists>rs. op = OpUpdateFromServer rs))"
  by (cases op)
     (simp_all add: selectPiece_observable makeMove_observable deselectPiece_def roomSend_observable)

theorem intents_do_not_mutate_witness:
  "observable (run (OpUpdateFromServer (snapshot [entry ''pawn'' White 5 4, entry ''pawn'' Black 1 4] ''playing'' [] (- 1) (- 1))) (updateFromServer (snapshot [entry ''pawn'' White 6 4, entry ''pawn'' Black 1 4] ''playing'' [] (- 1) (- 1)) (newGame (Some []) (Player White) ''s1'')))
     \<noteq> observable (updateFromServer (snapshot [entry ''pawn'' White 6 4, entry ''pawn'' Black 1 4] ''playing'' [] (- 1) (- 1)) (newGame (Some []) (Player White) ''s1''))
   \<and> (\<exists>rs. OpUpdateFromServer (snapshot [entry ''pawn'' White 5 4, entry ''pawn'' Black 1 4] ''playing'' [] (- 1) (- 1)) = OpUpdateFromServer rs)
   \<and> room (snd (selectPiece 6 4 (updateFromServer (snapshot [entry ''pawn'' White 6 4, entry ''pawn'' Black 1 4] ''playing'' [] (- 1) (- 1)) (newGame (Some []) (Player White) ''s1''))))
     \<noteq> room (updateFromServer (snapshot [entry ''pawn'' White 6 4, entry ''pawn'' Black 1 4] ''playing'' [] (- 1) (- 1)) (newGame (Some []) (Player White) ''s1''))
   \<and> observable (snd (selectPiece 6 4 (updateFromServer (snapshot [entry ''pawn'' White 6 4, entry ''pawn'' Black 1 4] ''playing'' [] (- 1) (- 1)) (newGame (Some []) (Player White) ''s1''))))
     = observable (updateFromServer (snapshot [entry ''pawn'' White 6 4, entry ''pawn'' Black 1 4] ''playing'' [] (- 1) (- 1)) (newGame (Some []) (Player White) ''s1''))"
proof -
  let ?g = "(updateFromServer (snapshot [entry ''pawn'' White 6 4, entry ''pawn'' Black 1 4] ''playing'' [] (- 1) (- 1)) (newGame (Some []) (Player White) ''s1''))"
  let ?rs = "(snapshot [entry ''pawn'' White 5 4, entry ''pawn'' Black 1 4] ''playing'' [] (- 1) (- 1))"
  have "getPiece (board (run (OpUpdateFromServer ?rs) ?g)) 5 4 \<noteq> getPiece (board ?g) 5 4"
    by code_simp
  then have ch: "observable (run (OpUpdateFromServer ?rs) ?g) \<noteq> observable ?g"
    by (auto simp: observable_def)
  with intents_do_not_mutate[where r = 6 and c = 4 and g = ?g and op = "OpUpdateFromServer ?rs"]
  have ex: "\<exists>rs. OpUpdateFromServer ?rs = OpUpdateFromServer rs"
    and same: "observable (snd (selectPiece 6 4 ?g)) = observable ?g"
    by blast+
  have sent: "room (snd (selectPiece 6 4 ?g)) \<noteq> room ?g"
    by code_simp
  from ch ex sent same show ?thesis by blast
qed

end
